theory Spec2Isabelle
  imports Main "HOL-Library.AList"
begin

section \<open>DERP over HTTP: the client of \<open>derp/derphttp/derphttp_client.go\<close>\<close>

text \<open>
  The client is modelled sequentially: one caller at a time, so the two mutexes of the
  source (\<open>netConnMu\<close>, \<open>clientMu\<close>) are always free when an operation starts and are
  left out. Every call the source makes into the network, the HTTP library or the DERP
  session appends an event to the trace of the world, and takes its result from an
  environment value given to the operation: the model fixes what the client does with a
  result, never which result arrives.
\<close>

subsection \<open>Errors\<close>

text \<open>
  A Go \<open>error\<close> value. \<open>ErrClientClosed\<close> is the package's sentinel; every other error is
  known by its message (\<open>fmt.Errorf\<close> and the collaborators' errors). A nil error is
  \<open>None\<close> of \<open>error option\<close>.
\<close>

datatype error = ErrClientClosed | ErrorString string

fun Error :: "error \<Rightarrow> string" where
  "Error ErrClientClosed = ''derphttp.Client closed''"
| "Error (ErrorString s) = s"

text \<open>The verb \<open>%v\<close> of \<open>fmt\<close> applied to an error value: a nil error prints as \<open><nil>\<close>.\<close>

fun fmt_v :: "error option \<Rightarrow> string" where
  "fmt_v None = ''<nil>''"
| "fmt_v (Some e) = Error e"

subsection \<open>Endpoint URL\<close>

text \<open>
  A \<open>url.URL\<close> value, as \<open>url.Parse\<close> returns it. \<open>Scheme\<close>, \<open>Host\<close> and \<open>Path\<close> are
  Go's fields of those names; \<open>Host\<close> is the host, or host and port joined by a colon.
  \<open>url_String\<close> is the result of the method \<open>String\<close> on the value: the method belongs to
  the Go library, so its result is carried with the value and not computed here.
\<close>

record URL =
  Scheme :: string
  Host :: string
  Path :: string
  url_String :: string

text \<open>
  \<open>strings.LastIndexByte\<close>, \<open>validOptionalPort\<close> and \<open>URL.Port\<close> of Go's \<open>net/url\<close>, and
  \<open>net.JoinHostPort\<close>, transcribed from the Go library: \<open>Port\<close> is what follows the
  last colon of \<open>Host\<close> when that is empty or all digits, and \<open>JoinHostPort\<close> puts the
  host in brackets when it contains a colon.
\<close>

fun LastIndexByte :: "string \<Rightarrow> char \<Rightarrow> nat option" where
  "LastIndexByte [] c = None"
| "LastIndexByte (x # xs) c =
     (case LastIndexByte xs c of
        Some i \<Rightarrow> Some (Suc i)
      | None \<Rightarrow> if x = c then Some 0 else None)"

definition validOptionalPort :: "string \<Rightarrow> bool" where
  "validOptionalPort port =
     (case port of
        [] \<Rightarrow> True
      | p # ds \<Rightarrow> p = CHR '':'' \<and> list_all (\<lambda>b. b \<in> set ''0123456789'') ds)"

definition Port :: "URL \<Rightarrow> string" where
  "Port u =
     (case LastIndexByte (Host u) (CHR '':'') of
        None \<Rightarrow> ''''
      | Some colon \<Rightarrow>
          if validOptionalPort (drop colon (Host u)) then drop (Suc colon) (Host u)
          else '''')"

definition JoinHostPort :: "string \<Rightarrow> string \<Rightarrow> string" where
  "JoinHostPort host port =
     (if CHR '':'' \<in> set host then ''['' @ host @ '']:'' @ port
      else host @ '':'' @ port)"

subsection \<open>Handles, requests, responses\<close>

type_synonym conn = nat
type_synonym bytes = string
type_synonym key = string
type_synonym Logf = nat

text \<open>A \<open>derp.Client\<close>: the session built over one raw transport.\<close>

datatype derp_Client = DerpClient (sess_id: nat) (sess_conn: conn)

text \<open>
  The request \<open>connect\<close> builds: the method and the URL string it hands to
  \<open>http.NewRequest\<close> (\<open>Target\<close>), and the header fields it sets. The request line and
  the further header fields on the wire are written by \<open>net/http\<close> from this value.
\<close>

record Request =
  Method :: string
  Target :: string
  Header :: "(string \<times> string list) list"

text \<open>\<open>Header.Set\<close>: the key's values are replaced by the single value.\<close>

definition Header_Set :: "string \<Rightarrow> string \<Rightarrow> Request \<Rightarrow> Request" where
  "Header_Set k v req = req\<lparr>Header := AList.update k [v] (Header req)\<rparr>"

text \<open>
  An \<open>http.Response\<close>: its status code and the bytes \<open>ioutil.ReadAll\<close> yields from its
  body.
\<close>

record Response =
  StatusCode :: int
  Body :: bytes

definition StatusSwitchingProtocols :: int where
  "StatusSwitchingProtocols = 101"

subsection \<open>The world: trace of calls and handle allocation\<close>

datatype event =
    LogLine Logf string
  | TLSDial string
  | NetDial string
  | ReqWrite conn Request
  | Flush conn
  | ReadResponse conn
  | ReadBody conn
  | ConnClose conn
  | DerpNewClient key conn
  | DerpSend derp_Client key bytes
  | DerpRecv derp_Client bytes

record world =
  trace :: "event list"
  next_conn :: nat
  next_sess :: nat

definition emit :: "event \<Rightarrow> world \<Rightarrow> world" where
  "emit e w = w\<lparr>trace := trace w @ [e]\<rparr>"

text \<open>
  What a dial returns: a connection and no error, no connection and an error, or (the case
  the source guards with \<open>tlsConn != nil\<close>) a connection together with an error.
\<close>

datatype dial_outcome = DialOk | DialErr error | DialPartial error

text \<open>
  The results of the calls one connection attempt can make, in the order of the source.
  A result is read only if its call is reached.
\<close>

record connect_env =
  dial_out :: dial_outcome
  newreq_err :: "error option"
  write_err :: "error option"
  flush_err :: "error option"
  read_out :: "error + Response"
  newclient_err :: "error option"

subsection \<open>Client\<close>

record Client =
  privateKey :: key
  logf :: Logf
  closed :: bool
  url :: URL
  resp :: "Response option"
  netConn :: "conn option"
  client :: "derp_Client option"

text \<open>
  \<open>NewClient\<close>. \<open>url.Parse\<close> belongs to the Go library and is a parameter.
\<close>

definition NewClient ::
  "(string \<Rightarrow> error + URL) \<Rightarrow> key \<Rightarrow> string \<Rightarrow> Logf \<Rightarrow> error + Client" where
  "NewClient url_Parse pk serverURL lg =
     (case url_Parse serverURL of
        Inl err \<Rightarrow> Inl (ErrorString (''derphttp.NewClient: '' @ fmt_v (Some err)))
      | Inr u \<Rightarrow>
          Inr \<lparr>privateKey = pk, logf = lg, closed = False, url = u,
               resp = None, netConn = None, client = None\<rparr>)"

text \<open>
  The deferred function of \<open>connect\<close>, run on every return with a non-nil error after the
  \<open>defer\<close> statement: the error is wrapped with the caller's name and the local
  \<open>netConn\<close>, when set, is closed. The field \<open>c.netConn\<close> is not touched.
\<close>

definition connect_failed ::
  "string \<Rightarrow> conn option \<Rightarrow> error \<Rightarrow> Client \<Rightarrow> world \<Rightarrow>
     (error + derp_Client) \<times> Client \<times> world" where
  "connect_failed caller nc err c w =
     (Inl (ErrorString (caller @ '' connect: '' @ fmt_v (Some err))), c,
      (case nc of None \<Rightarrow> w | Some n \<Rightarrow> emit (ConnClose n) w))"

text \<open>The address the source dials, and whether it dials with TLS (lines 102 to 115).\<close>

definition dial_addr :: "URL \<Rightarrow> bool \<times> string" where
  "dial_addr u =
     (if Scheme u = ''https'' then
        (let port = Port u;
             port = (if port = '''' then ''443'' else port)
         in (True, JoinHostPort (Host u) port))
      else (False, Host u))"

definition dial_event :: "URL \<Rightarrow> event" where
  "dial_event u = (case dial_addr u of (tls, addr) \<Rightarrow> if tls then TLSDial addr else NetDial addr)"

text \<open>The request of lines 126 to 131.\<close>

definition upgrade_request :: "URL \<Rightarrow> Request" where
  "upgrade_request u =
     Header_Set ''Connection'' ''Upgrade''
       (Header_Set ''Upgrade'' ''WebSocket''
          \<lparr>Method = ''GET'', Target = url_String u, Header = []\<rparr>)"

text \<open>
  Lines 120 to 156 of \<open>connect\<close>: the dial has returned the connection \<open>n\<close> without an
  error.
\<close>

definition handshake ::
  "Client \<Rightarrow> world \<Rightarrow> connect_env \<Rightarrow> string \<Rightarrow> conn \<Rightarrow>
     (error + derp_Client) \<times> Client \<times> world" where
  "handshake c0 w env caller n =
     (let c = c0\<lparr>netConn := Some n\<rparr> in
      case newreq_err env of
        Some err \<Rightarrow> connect_failed caller (Some n) err c w
      | None \<Rightarrow>
     (let req = upgrade_request (url c);
          w = emit (ReqWrite n req) w in
      case write_err env of
        Some err \<Rightarrow> connect_failed caller (Some n) err c w
      | None \<Rightarrow>
     (let w = emit (Flush n) w in
      case flush_err env of
        Some err \<Rightarrow> connect_failed caller (Some n) err c w
      | None \<Rightarrow>
     (let w = emit (ReadResponse n) w in
      case read_out env of
        Inl err \<Rightarrow> connect_failed caller (Some n) err c w
      | Inr rsp \<Rightarrow>
          if StatusCode rsp \<noteq> StatusSwitchingProtocols then
            (let b = Body rsp;
                 w = emit (ReadBody n) w
             in connect_failed caller (Some n)
                  (ErrorString (''GET failed: '' @ fmt_v None @ '': '' @ b)) c w)
          else
            (let rsp = rsp\<lparr>Body := ''''\<rparr>;
                 w = emit (DerpNewClient (privateKey c) n) w in
             case newclient_err env of
               Some err \<Rightarrow> connect_failed caller (Some n) err c w
             | None \<Rightarrow>
                 (let derpClient = DerpClient (next_sess w) n;
                      w = w\<lparr>next_sess := Suc (next_sess w)\<rparr>;
                      c = c\<lparr>resp := Some rsp, client := Some derpClient\<rparr>
                  in (Inr derpClient, c, w)))))))"

definition connect ::
  "Client \<Rightarrow> world \<Rightarrow> connect_env \<Rightarrow> string \<Rightarrow>
     (error + derp_Client) \<times> Client \<times> world" where
  "connect c w env caller =
     (if closed c then (Inl ErrClientClosed, c, w)
      else case client c of
        Some dc \<Rightarrow> (Inr dc, c, w)
      | None \<Rightarrow>
          (let w = emit (LogLine (logf c) (caller @ '': connecting'')) w;
               w = emit (dial_event (url c)) w
           in case dial_out env of
                DialErr err \<Rightarrow> connect_failed caller None err c w
              | DialPartial err \<Rightarrow>
                  (let n = next_conn w;
                       w = w\<lparr>next_conn := Suc n\<rparr>
                   in connect_failed caller (Some n) err c w)
              | DialOk \<Rightarrow>
                  (let n = next_conn w;
                       w = w\<lparr>next_conn := Suc n\<rparr>
                   in handshake c w env caller n)))"

definition Connect :: "Client \<Rightarrow> world \<Rightarrow> connect_env \<Rightarrow> error option \<times> Client \<times> world" where
  "Connect c w env =
     (case connect c w env ''derphttp.Client.Connect'' of
        (Inl err, c, w) \<Rightarrow> (Some err, c, w)
      | (Inr dc, c, w) \<Rightarrow> (None, c, w))"

text \<open>The unexported \<open>close\<close> (lines 195 to 214).\<close>

definition close :: "Client \<Rightarrow> world \<Rightarrow> Client \<times> world" where
  "close c w =
     (let w = (case netConn c of None \<Rightarrow> w | Some n \<Rightarrow> emit (ConnClose n) w)
      in if client c = None then (c, w)
         else (c\<lparr>resp := None, client := None, netConn := None\<rparr>, w))"

text \<open>
  \<open>Send\<close>. The \<open>err\<close> of \<open>if err := client.Send(dstKey, b); err != nil\<close> is a new variable
  of the \<open>if\<close> statement; the \<open>err\<close> of the final \<open>return err\<close> is the one \<open>connect\<close>
  assigned, which is nil on this path.
\<close>

definition Send ::
  "Client \<Rightarrow> world \<Rightarrow> key \<Rightarrow> bytes \<Rightarrow> connect_env \<Rightarrow> error option \<Rightarrow>
     error option \<times> Client \<times> world" where
  "Send c w dstKey b env send_err =
     (case connect c w env ''derphttp.Client.Send'' of
        (Inl err, c, w) \<Rightarrow> (Some err, c, w)
      | (Inr dc, c, w) \<Rightarrow>
          (let err = None;
               w = emit (DerpSend dc dstKey b) w;
               err_inner = send_err;
               (c, w) = (if err_inner \<noteq> None then close c w else (c, w))
           in (err, c, w)))"

text \<open>\<open>Recv\<close> returns the session's message and error as they are.\<close>

definition Recv ::
  "Client \<Rightarrow> world \<Rightarrow> bytes \<Rightarrow> connect_env \<Rightarrow> bytes option \<times> error option \<Rightarrow>
     (bytes option \<times> error option) \<times> Client \<times> world" where
  "Recv c w b env recv_out =
     (case connect c w env ''derphttp.Client.Recv'' of
        (Inl err, c, w) \<Rightarrow> ((None, Some err), c, w)
      | (Inr dc, c, w) \<Rightarrow>
          (let w = emit (DerpRecv dc b) w;
               (m, err) = recv_out;
               (c, w) = (if err \<noteq> None then close c w else (c, w))
           in ((m, err), c, w)))"

definition Close :: "Client \<Rightarrow> world \<Rightarrow> error option \<times> Client \<times> world" where
  "Close c w =
     (if closed c then (Some ErrClientClosed, c, w)
      else (let c = c\<lparr>closed := True\<rparr>;
                (c, w) = close c w
            in (None, c, w)))"

subsection \<open>Sequences of public operations\<close>

text \<open>
  A public operation together with the results the collaborators give during it, what
  it returns, and the run of a list of operations on one client.
\<close>

datatype op =
    OpConnect connect_env
  | OpSend key bytes connect_env "error option"
  | OpRecv bytes connect_env "bytes option \<times> error option"
  | OpClose

datatype ret = RetErr "error option" | RetRecv "bytes option \<times> error option"

fun step :: "op \<Rightarrow> Client \<Rightarrow> world \<Rightarrow> ret \<times> Client \<times> world" where
  "step (OpConnect env) c w = (case Connect c w env of (r, c, w) \<Rightarrow> (RetErr r, c, w))"
| "step (OpSend dstKey b env send_err) c w =
     (case Send c w dstKey b env send_err of (r, c, w) \<Rightarrow> (RetErr r, c, w))"
| "step (OpRecv b env recv_out) c w =
     (case Recv c w b env recv_out of (r, c, w) \<Rightarrow> (RetRecv r, c, w))"
| "step OpClose c w = (case Close c w of (r, c, w) \<Rightarrow> (RetErr r, c, w))"

fun run :: "op list \<Rightarrow> Client \<Rightarrow> world \<Rightarrow> ret list \<times> Client \<times> world" where
  "run [] c w = ([], c, w)"
| "run (x # xs) c w =
     (case step x c w of (r, c, w) \<Rightarrow>
        (case run xs c w of (rs, c, w) \<Rightarrow> (r # rs, c, w)))"

text \<open>What an operation returns when it fails with \<open>ErrClientClosed\<close>.\<close>

fun closed_ret :: "op \<Rightarrow> ret" where
  "closed_ret (OpRecv b env recv_out) = RetRecv (None, Some ErrClientClosed)"
| "closed_ret _ = RetErr (Some ErrClientClosed)"

text \<open>The calls made between two worlds; dials and upgrade requests among them.\<close>

definition new_events :: "world \<Rightarrow> world \<Rightarrow> event list" where
  "new_events w w' = drop (length (trace w)) (trace w')"

fun is_dial :: "event \<Rightarrow> bool" where
  "is_dial (TLSDial a) = True"
| "is_dial (NetDial a) = True"
| "is_dial _ = False"

fun is_handshake :: "event \<Rightarrow> bool" where
  "is_handshake (ReqWrite n r) = True"
| "is_handshake _ = False"

text \<open>A connection attempt in which every call succeeds and the server answers 101.\<close>

definition no_faults :: "connect_env \<Rightarrow> bool" where
  "no_faults env =
     (dial_out env = DialOk \<and> newreq_err env = None \<and> write_err env = None \<and>
      flush_err env = None \<and>
      (case read_out env of Inl err \<Rightarrow> False | Inr rsp \<Rightarrow> StatusCode rsp = 101) \<and>
      newclient_err env = None)"

text \<open>
  The pairing of the handles that the operations preserve: a session comes with the
  transport it was built over and with a response; without a session there is no
  response, and a transport handle still set refers to a closed transport.
\<close>

definition handles_ok :: "Client \<Rightarrow> world \<Rightarrow> bool" where
  "handles_ok c w =
     (case client c of
        Some dc \<Rightarrow> netConn c = Some (sess_conn dc) \<and> resp c \<noteq> None
      | None \<Rightarrow>
          resp c = None \<and>
          (case netConn c of None \<Rightarrow> True | Some n \<Rightarrow> ConnClose n \<in> set (trace w)))"

text \<open>
  The session a successful connection attempt builds in world \<open>w\<close>, and the calls it
  makes, in order.
\<close>

definition fresh_session :: "world \<Rightarrow> derp_Client" where
  "fresh_session w = DerpClient (next_sess w) (next_conn w)"

definition handshake_events :: "Client \<Rightarrow> world \<Rightarrow> string \<Rightarrow> event list" where
  "handshake_events c w caller =
     [LogLine (logf c) (caller @ '': connecting''), dial_event (url c),
      ReqWrite (next_conn w) (upgrade_request (url c)), Flush (next_conn w),
      ReadResponse (next_conn w), DerpNewClient (privateKey c) (next_conn w)]"

subsection \<open>Concrete inputs\<close>

definition example_url :: URL where
  "example_url =
     \<lparr>Scheme = ''https'', Host = ''relay.example:443'', Path = ''/derp'',
      url_String = ''https://relay.example:443/derp''\<rparr>"

definition fresh_client :: Client where
  "fresh_client =
     \<lparr>privateKey = ''k'', logf = 0, closed = False, url = example_url,
      resp = None, netConn = None, client = None\<rparr>"

definition world0 :: world where
  "world0 = \<lparr>trace = [], next_conn = 0, next_sess = 0\<rparr>"

definition env_ok :: connect_env where
  "env_ok =
     \<lparr>dial_out = DialOk, newreq_err = None, write_err = None, flush_err = None,
      read_out = Inr \<lparr>StatusCode = 101, Body = ''''\<rparr>, newclient_err = None\<rparr>"

definition env_status_200 :: connect_env where
  "env_status_200 = env_ok\<lparr>read_out := Inr \<lparr>StatusCode = 200, Body = ''nope''\<rparr>\<rparr>"

definition env_flush_fails :: connect_env where
  "env_flush_fails = env_ok\<lparr>flush_err := Some (ErrorString ''broken pipe'')\<rparr>"

definition payload :: bytes where
  "payload = [CHR 0x01, CHR 0x02]"

definition parse_example :: "string \<Rightarrow> error + URL" where
  "parse_example s = Inr example_url"

text \<open>The client and the world after a first successful \<open>Connect\<close>.\<close>

definition connected_client :: Client where
  "connected_client = fst (snd (Connect fresh_client world0 env_ok))"

definition world1 :: world where
  "world1 = snd (snd (Connect fresh_client world0 env_ok))"

section \<open>Properties\<close>

lemmas ex_defs = example_url_def fresh_client_def world0_def env_ok_def env_status_200_def
  env_flush_fails_def payload_def
lemmas op_defs = Connect_def Send_def Recv_def Close_def connect_def handshake_def close_def
  connect_failed_def emit_def Let_def StatusSwitchingProtocols_def upgrade_request_def
  Header_Set_def dial_event_def dial_addr_def Port_def JoinHostPort_def
  validOptionalPort_def

subsection \<open>Auxiliary facts\<close>

lemma connect_closed: "closed c \<Longrightarrow> connect c w env caller = (Inl ErrClientClosed, c, w)"
  by (simp add: connect_def)

lemma connect_connected:
  "\<not> closed c \<Longrightarrow> client c = Some dc \<Longrightarrow> connect c w env caller = (Inr dc, c, w)"
  by (simp add: connect_def)

lemma dial_event_is_dial: "is_dial (dial_event u)"
  by (simp add: dial_event_def split: prod.split)

lemma handshake_inv:
  assumes "handshake c w env caller n = (r, c', w')" "client c = None" "resp c = None"
  shows "handles_ok c' w'"
  using assms
  by (auto simp: handshake_def Let_def connect_failed_def emit_def handles_ok_def
      split: option.splits sum.splits if_splits)

lemma connect_inv:
  assumes "connect c w env caller = (r, c', w')" "handles_ok c w"
  shows "handles_ok c' w'"
proof (cases "closed c \<or> client c \<noteq> None")
  case True
  then show ?thesis using assms by (auto simp: connect_def split: if_splits option.splits)
next
  case False
  then have nc: "\<not> closed c" "client c = None" by auto
  with assms(2) have rn: "resp c = None" by (simp add: handles_ok_def)
  show ?thesis
  proof (cases "dial_out env")
    case DialOk
    with assms(1) nc have "handshake c
        (emit (dial_event (url c)) (emit (LogLine (logf c) (caller @ '': connecting'')) w)
           \<lparr>next_conn := Suc (next_conn w)\<rparr>) env caller (next_conn w) = (r, c', w')"
      by (simp add: connect_def Let_def emit_def)
    then show ?thesis using nc(2) rn by (rule handshake_inv)
  next
    case (DialErr e)
    with assms nc rn show ?thesis
      by (auto simp: connect_def Let_def emit_def connect_failed_def handles_ok_def split: option.splits)
  next
    case (DialPartial e)
    with assms nc rn show ?thesis
      by (auto simp: connect_def Let_def emit_def connect_failed_def handles_ok_def split: option.splits)
  qed
qed

lemma close_inv: "close c w = (c', w') \<Longrightarrow> handles_ok c w \<Longrightarrow> handles_ok c' w'"
  by (auto simp: close_def Let_def handles_ok_def emit_def split: option.splits if_splits)

lemma closed_update_inv: "handles_ok (c\<lparr>closed := b\<rparr>) w = handles_ok c w"
  by (simp add: handles_ok_def split: option.splits)

lemma emit_inv: "handles_ok c w \<Longrightarrow> handles_ok c (emit e w)"
  by (auto simp: handles_ok_def emit_def split: option.splits)

lemma step_inv:
  assumes "step x c w = (r, c', w')" "handles_ok c w"
  shows "handles_ok c' w'"
proof (cases x)
  case (OpConnect env)
  with assms show ?thesis
    by (auto simp: Connect_def split: prod.splits sum.splits dest: connect_inv)
next
  case (OpSend k b env se)
  with assms show ?thesis
    by (auto simp: Send_def Let_def split: prod.splits sum.splits if_splits
        dest: connect_inv close_inv emit_inv)
next
  case (OpRecv b env ro)
  with assms show ?thesis
    by (auto simp: Recv_def Let_def split: prod.splits sum.splits if_splits
        dest: connect_inv close_inv emit_inv)
next
  case OpClose
  with assms show ?thesis
    by (auto simp: Close_def Let_def closed_update_inv split: prod.splits if_splits dest: close_inv)
qed

lemma run_inv:
  "run xs c w = (rs, c', w') \<Longrightarrow> handles_ok c w \<Longrightarrow> handles_ok c' w'"
proof (induction xs arbitrary: c w rs)
  case Nil
  then show ?case by simp
next
  case (Cons x xs)
  obtain r c1 w1 where s: "step x c w = (r, c1, w1)" by (cases "step x c w") auto
  obtain rs1 c2 w2 where t: "run xs c1 w1 = (rs1, c2, w2)" by (cases "run xs c1 w1") auto
  from Cons.prems(1) s t have "run xs c1 w1 = (rs1, c', w')" by auto
  moreover from s Cons.prems(2) have "handles_ok c1 w1" by (rule step_inv)
  ultimately show ?case by (rule Cons.IH)
qed

lemma step_closed: "closed c \<Longrightarrow> step x c w = (closed_ret x, c, w)"
  by (cases x) (simp_all add: Connect_def Send_def Recv_def Close_def connect_closed)

lemma run_closed: "closed c \<Longrightarrow> run xs c w = (map closed_ret xs, c, w)"
  by (induction xs) (simp_all add: step_closed)

lemma connect_no_faults:
  assumes "\<not> closed c" "client c = None" "no_faults env"
  shows "connect c w env caller =
     (Inr (DerpClient (next_sess w) (next_conn w)),
      c\<lparr>netConn := Some (next_conn w),
        resp := Some ((projr (read_out env))\<lparr>Body := ''''\<rparr>),
        client := Some (DerpClient (next_sess w) (next_conn w))\<rparr>,
      w\<lparr>trace := trace w @
           [LogLine (logf c) (caller @ '': connecting''), dial_event (url c),
            ReqWrite (next_conn w) (upgrade_request (url c)), Flush (next_conn w),
            ReadResponse (next_conn w), DerpNewClient (privateKey c) (next_conn w)],
        next_conn := Suc (next_conn w), next_sess := Suc (next_sess w)\<rparr>)"
  using assms
  by (auto simp: connect_def handshake_def no_faults_def Let_def emit_def
      StatusSwitchingProtocols_def split: sum.splits)

lemma NewClient_handles_ok:
  "NewClient url_Parse pk serverURL lg = Inr c0 \<Longrightarrow> handles_ok c0 w0"
  by (auto simp: NewClient_def handles_ok_def split: sum.splits)

lemma Send_failure_clears:
  assumes "connect c w env ''derphttp.Client.Send'' = (Inr dc, c1, w1)" "handles_ok c w"
  shows "netConn (fst (snd (Send c w dstKey b env (Some e)))) = None \<and>
         client (fst (snd (Send c w dstKey b env (Some e)))) = None"
proof -
  from assms have ok: "handles_ok c1 w1" by (rule connect_inv)
  from assms(1) have "client c1 = Some dc"
    by (auto simp: connect_def handshake_def connect_failed_def Let_def
        split: if_splits option.splits dial_outcome.splits sum.splits)
  with ok assms(1) show ?thesis
    by (simp add: Send_def Let_def close_def handles_ok_def split: option.splits)
qed

lemma Connect_connected:
  "\<not> closed c \<Longrightarrow> client c = Some dc \<Longrightarrow> Connect c w env = (None, c, w)"
  by (simp add: Connect_def connect_connected)

lemma connect_success_session:
  "connect c w env caller = (Inr dc, c1, w1) \<Longrightarrow> client c1 = Some dc \<and> closed c1 = closed c"
  by (auto simp: connect_def handshake_def connect_failed_def Let_def
      split: if_splits option.splits dial_outcome.splits sum.splits)

lemma connect_success_events:
  assumes "connect c w env caller = (Inr dc, c1, w1)" "client c = None"
  shows "new_events w w1 =
     [LogLine (logf c) (caller @ '': connecting''), dial_event (url c),
      ReqWrite (next_conn w) (upgrade_request (url c)), Flush (next_conn w),
      ReadResponse (next_conn w), DerpNewClient (privateKey c) (next_conn w)]"
  using assms
  by (auto simp: connect_def handshake_def connect_failed_def Let_def emit_def new_events_def
      split: if_splits option.splits dial_outcome.splits sum.splits)

lemma Close_result:
  "Close c w = (None, c1, w1) \<Longrightarrow> closed c1"
  by (auto simp: Close_def close_def Let_def split: if_splits prod.splits)

lemma Send_teardown:
  assumes "\<not> closed c" "client c = Some dc" "netConn c = Some n"
  shows "Send c w dstKey b env (Some e) =
     (None, c\<lparr>resp := None, client := None, netConn := None\<rparr>,
      emit (ConnClose n) (emit (DerpSend dc dstKey b) w))"
  using assms by (simp add: Send_def connect_connected close_def)

lemma Recv_teardown:
  assumes "\<not> closed c" "client c = Some dc" "netConn c = Some n"
  shows "Recv c w buf env (m, Some e) =
     ((m, Some e), c\<lparr>resp := None, client := None, netConn := None\<rparr>,
      emit (ConnClose n) (emit (DerpRecv dc buf) w))"
  using assms by (simp add: Recv_def connect_connected close_def)

lemma reconnect_Connect:
  assumes "\<not> closed c" "client c = None" "no_faults env"
  shows "fst (Connect c w env) = None \<and>
     netConn (fst (snd (Connect c w env))) = Some (next_conn w) \<and>
     client (fst (snd (Connect c w env))) = Some (fresh_session w) \<and>
     new_events w (snd (snd (Connect c w env))) = handshake_events c w ''derphttp.Client.Connect''"
  by (simp add: Connect_def connect_no_faults [OF assms] fresh_session_def handshake_events_def
      new_events_def)

lemma reconnect_Send:
  assumes "\<not> closed c" "client c = None" "no_faults env"
  shows "fst (Send c w k b env None) = None \<and>
     netConn (fst (snd (Send c w k b env None))) = Some (next_conn w) \<and>
     client (fst (snd (Send c w k b env None))) = Some (fresh_session w) \<and>
     new_events w (snd (snd (Send c w k b env None))) =
       handshake_events c w ''derphttp.Client.Send'' @ [DerpSend (fresh_session w) k b]"
  by (simp add: Send_def connect_no_faults [OF assms] fresh_session_def handshake_events_def
      new_events_def emit_def)

lemma reconnect_Recv:
  assumes "\<not> closed c" "client c = None" "no_faults env"
  shows "fst (Recv c w buf env (m, None)) = (m, None) \<and>
     netConn (fst (snd (Recv c w buf env (m, None)))) = Some (next_conn w) \<and>
     client (fst (snd (Recv c w buf env (m, None)))) = Some (fresh_session w) \<and>
     new_events w (snd (snd (Recv c w buf env (m, None)))) =
       handshake_events c w ''derphttp.Client.Recv'' @ [DerpRecv (fresh_session w) buf]"
  by (simp add: Recv_def connect_no_faults [OF assms] fresh_session_def handshake_events_def
      new_events_def emit_def)

lemma connected_client_eq:
  "connected_client = fresh_client\<lparr>netConn := Some 0,
     resp := Some \<lparr>StatusCode = 101, Body = ''''\<rparr>, client := Some (DerpClient 0 0)\<rparr>"
  by (simp add: connected_client_def ex_defs op_defs)

lemma world1_counters: "next_conn world1 = 1" "next_sess world1 = 1"
  by (simp_all add: world1_def ex_defs op_defs)

subsection \<open>Claims\<close>

text \<open>
  C1. Claimed: when the session's send primitive fails, \<open>Send\<close> tears the connection
  state down and returns that failure. On a fresh client whose connection attempt
  succeeds and whose session send fails with \<open>broken pipe\<close>, \<open>Send\<close> does call the
  session's send and tears the state down, but returns nil: the error is held by the
  variable of the \<open>if\<close> statement and the function returns the outer one. \<open>Recv\<close>, on
  the same input, returns the session's error.
\<close>

theorem Send_drops_session_error:
  "fst (Send fresh_client world0 ''dst'' payload env_ok (Some (ErrorString ''broken pipe''))) = None
   \<and> DerpSend (DerpClient 0 0) ''dst'' payload
       \<in> set (trace (snd (snd (Send fresh_client world0 ''dst'' payload env_ok
                                  (Some (ErrorString ''broken pipe''))))))
   \<and> fst (Recv fresh_client world0 ''buf'' env_ok (None, Some (ErrorString ''broken pipe'')))
       = (None, Some (ErrorString ''broken pipe''))"
  by (simp add: ex_defs op_defs)




text \<open>
  C3, as stated, fails: after a \<open>Send\<close> whose handshake flush fails, the raw transport
  handle is set and the session handle is absent.
\<close>

theorem failed_handshake_breaks_pairing:
  "netConn (fst (snd (run [OpSend ''dst'' payload env_flush_fails None] fresh_client world0))) = Some 0
   \<and> client (fst (snd (run [OpSend ''dst'' payload env_flush_fails None] fresh_client world0))) = None"
  by (simp add: ex_defs op_defs)

text \<open>
  C3, amended. In every state reached from \<open>NewClient\<close> by any sequence of \<open>Connect\<close>,
  \<open>Send\<close>, \<open>Recv\<close> and \<open>Close\<close> calls, with any results of the collaborators: when the
  session handle is set, so are the raw transport handle and the stored response; when
  it is absent, so is the stored response, and a raw transport handle that is still set
  refers to a transport that has been closed. From every such state, a \<open>Send\<close> that
  reaches the session and whose session send fails leaves both handles absent.
\<close>

theorem handles_invariant:
  assumes "NewClient url_Parse pk serverURL lg = Inr c0"
    and "run ops c0 w0 = (rs, c, w)"
  shows "(client c \<noteq> None \<longrightarrow> netConn c \<noteq> None \<and> resp c \<noteq> None) \<and>
         (client c = None \<longrightarrow>
            resp c = None \<and> (\<forall>n. netConn c = Some n \<longrightarrow> ConnClose n \<in> set (trace w))) \<and>
         (\<forall>dstKey b env e dc c1 w1.
            connect c w env ''derphttp.Client.Send'' = (Inr dc, c1, w1) \<longrightarrow>
            netConn (fst (snd (Send c w dstKey b env (Some e)))) = None \<and>
            client (fst (snd (Send c w dstKey b env (Some e)))) = None)"
proof -
  from assms(1) have "handles_ok c0 w0" by (rule NewClient_handles_ok)
  with assms(2) have ok: "handles_ok c w" by (rule run_inv)
  then have "(client c \<noteq> None \<longrightarrow> netConn c \<noteq> None \<and> resp c \<noteq> None) \<and>
         (client c = None \<longrightarrow>
            resp c = None \<and> (\<forall>n. netConn c = Some n \<longrightarrow> ConnClose n \<in> set (trace w)))"
    by (auto simp: handles_ok_def split: option.splits)
  moreover from ok have "\<forall>dstKey b env e dc c1 w1.
            connect c w env ''derphttp.Client.Send'' = (Inr dc, c1, w1) \<longrightarrow>
            netConn (fst (snd (Send c w dstKey b env (Some e)))) = None \<and>
            client (fst (snd (Send c w dstKey b env (Some e)))) = None"
    using Send_failure_clears by blast
  ultimately show ?thesis by blast
qed

text \<open>
  The amended C3 after a rejected \<open>Connect\<close> (the transport handle set, its transport
  closed, no session), and after a successful \<open>Connect\<close> that follows it, where a
  failing \<open>Send\<close> clears both handles.
\<close>

theorem handles_invariant_witness:
  "NewClient parse_example ''k'' ''https://relay.example:443/derp'' 0 = Inr fresh_client \<and>
   client (fst (snd (run [OpConnect env_status_200] fresh_client world0))) = None \<and>
   resp (fst (snd (run [OpConnect env_status_200] fresh_client world0))) = None \<and>
   netConn (fst (snd (run [OpConnect env_status_200] fresh_client world0))) = Some 0 \<and>
   ConnClose 0 \<in> set (trace (snd (snd (run [OpConnect env_status_200] fresh_client world0)))) \<and>
   client (fst (snd (run [OpConnect env_status_200, OpConnect env_ok] fresh_client world0)))
     = Some (DerpClient 0 1) \<and>
   netConn (fst (snd (run [OpConnect env_status_200, OpConnect env_ok] fresh_client world0)))
     \<noteq> None \<and>
   resp (fst (snd (run [OpConnect env_status_200, OpConnect env_ok] fresh_client world0)))
     \<noteq> None \<and>
   netConn (fst (snd (Send
       (fst (snd (run [OpConnect env_status_200, OpConnect env_ok] fresh_client world0)))
       (snd (snd (run [OpConnect env_status_200, OpConnect env_ok] fresh_client world0)))
       ''dst'' payload env_ok (Some (ErrorString ''broken pipe''))))) = None \<and>
   client (fst (snd (Send
       (fst (snd (run [OpConnect env_status_200, OpConnect env_ok] fresh_client world0)))
       (snd (snd (run [OpConnect env_status_200, OpConnect env_ok] fresh_client world0)))
       ''dst'' payload env_ok (Some (ErrorString ''broken pipe''))))) = None"
proof -
  let ?q = "run [OpConnect env_status_200] fresh_client world0"
  let ?r = "run [OpConnect env_status_200, OpConnect env_ok] fresh_client world0"
  have h1: "NewClient parse_example ''k'' ''https://relay.example:443/derp'' 0 = Inr fresh_client"
    by (simp add: NewClient_def parse_example_def fresh_client_def)
  have q: "?q = (fst ?q, fst (snd ?q), snd (snd ?q))"
    and r: "?r = (fst ?r, fst (snd ?r), snd (snd ?r))" by simp_all
  have cq: "client (fst (snd ?q)) = None" "netConn (fst (snd ?q)) = Some 0"
    by (simp_all add: ex_defs op_defs)
  have c: "client (fst (snd ?r)) = Some (DerpClient 0 1)"
    by (simp add: ex_defs op_defs)
  have cn: "connect (fst (snd ?r)) (snd (snd ?r)) env_ok ''derphttp.Client.Send'' =
      (Inr (DerpClient 0 1), fst (snd ?r), snd (snd ?r))"
    by (simp add: ex_defs op_defs)
  from handles_invariant [OF h1 q] handles_invariant [OF h1 r] cq c cn h1
  show ?thesis by (simp del: run.simps)
qed

text \<open>
  C4. On a client that is not closed and holds a session, \<open>Connect\<close> returns nil and
  leaves the client and the world (hence the trace of calls) as they were. When a first
  \<open>Connect\<close> on a disconnected client succeeds, a second one returns nil with no change,
  and the two calls together made one dial and wrote one upgrade request.
\<close>

theorem Connect_idempotent:
  "(\<not> closed c \<and> client c = Some dc \<longrightarrow> Connect c w env = (None, c, w)) \<and>
   (\<not> closed c \<and> client c = None \<and> Connect c w env = (None, c1, w1) \<longrightarrow>
      Connect c1 w1 env' = (None, c1, w1) \<and>
      length (filter is_dial (new_events w (snd (snd (Connect c1 w1 env'))))) = 1 \<and>
      length (filter is_handshake (new_events w (snd (snd (Connect c1 w1 env'))))) = 1)"
proof (intro conjI impI)
  assume "\<not> closed c \<and> client c = Some dc"
  then show "Connect c w env = (None, c, w)" by (simp add: Connect_connected)
next
  assume a: "\<not> closed c \<and> client c = None \<and> Connect c w env = (None, c1, w1)"
  then obtain dc' where cn: "connect c w env ''derphttp.Client.Connect'' = (Inr dc', c1, w1)"
    by (auto simp: Connect_def split: prod.splits sum.splits)
  from connect_success_session [OF cn] a have s: "client c1 = Some dc'" "\<not> closed c1" by auto
  then show second: "Connect c1 w1 env' = (None, c1, w1)" by (simp add: Connect_connected)
  from a cn have ev: "new_events w w1 =
     [LogLine (logf c) (''derphttp.Client.Connect'' @ '': connecting''), dial_event (url c),
      ReqWrite (next_conn w) (upgrade_request (url c)), Flush (next_conn w),
      ReadResponse (next_conn w), DerpNewClient (privateKey c) (next_conn w)]"
    by (intro connect_success_events) auto
  show "length (filter is_dial (new_events w (snd (snd (Connect c1 w1 env'))))) = 1"
    by (simp only: second snd_conv ev) (simp add: dial_event_is_dial)
  show "length (filter is_handshake (new_events w (snd (snd (Connect c1 w1 env'))))) = 1"
    by (simp only: second snd_conv ev) (simp add: dial_event_def split: prod.split)
qed

text \<open>
  C4 on a fresh client: the second \<open>Connect\<close> ignores the results it is offered.
\<close>

theorem Connect_idempotent_witness:
  "\<not> closed fresh_client \<and> client fresh_client = None \<and>
   Connect fresh_client world0 env_ok =
     (None, fst (snd (Connect fresh_client world0 env_ok)),
            snd (snd (Connect fresh_client world0 env_ok))) \<and>
   \<not> closed (fst (snd (Connect fresh_client world0 env_ok))) \<and>
   client (fst (snd (Connect fresh_client world0 env_ok))) = Some (DerpClient 0 0) \<and>
   Connect (fst (snd (Connect fresh_client world0 env_ok)))
           (snd (snd (Connect fresh_client world0 env_ok))) env_status_200 =
     (None, fst (snd (Connect fresh_client world0 env_ok)),
            snd (snd (Connect fresh_client world0 env_ok))) \<and>
   length (filter is_dial (new_events world0
     (snd (snd (Connect (fst (snd (Connect fresh_client world0 env_ok)))
                        (snd (snd (Connect fresh_client world0 env_ok))) env_status_200))))) = 1"
proof -
  let ?c1 = "fst (snd (Connect fresh_client world0 env_ok))"
  let ?w1 = "snd (snd (Connect fresh_client world0 env_ok))"
  have h: "\<not> closed fresh_client \<and> client fresh_client = None \<and>
     Connect fresh_client world0 env_ok = (None, ?c1, ?w1)"
    by (simp add: ex_defs op_defs)
  have s: "client ?c1 = Some (DerpClient 0 0)"
    by (simp add: ex_defs op_defs)
  have n: "\<not> closed ?c1"
    by (simp add: ex_defs op_defs)
  from Connect_idempotent [of fresh_client "DerpClient 0 0" world0 env_ok ?c1 ?w1 env_status_200]
    Connect_idempotent [of ?c1 "DerpClient 0 0" ?w1 env_status_200 ?c1 ?w1 env_status_200]
    h s n
  show ?thesis by blast
qed

text \<open>
  C5. After a \<open>Close\<close> that returned nil the client is closed; \<open>Connect\<close>, \<open>Send\<close>,
  \<open>Recv\<close> and \<open>Close\<close> then return \<open>ErrClientClosed\<close> and leave the client and the world
  unchanged, and so does every sequence of operations: each returns \<open>ErrClientClosed\<close>
  and the client stays closed.
\<close>

theorem Close_terminal:
  assumes "Close c w = (None, c1, w1)"
  shows "closed c1 \<and>
     Connect c1 w1 env = (Some ErrClientClosed, c1, w1) \<and>
     Send c1 w1 dstKey b env send_err = (Some ErrClientClosed, c1, w1) \<and>
     Recv c1 w1 buf env recv_out = ((None, Some ErrClientClosed), c1, w1) \<and>
     Close c1 w1 = (Some ErrClientClosed, c1, w1) \<and>
     run ops c1 w1 = (map closed_ret ops, c1, w1)"
proof -
  from assms have "closed c1" by (rule Close_result)
  then show ?thesis
    by (simp add: Connect_def Send_def Recv_def Close_def connect_closed run_closed)
qed

text \<open>
  C5 on a client that was connected and then closed.
\<close>

theorem Close_terminal_witness:
  "Close (fst (snd (Connect fresh_client world0 env_ok)))
         (snd (snd (Connect fresh_client world0 env_ok))) =
     (None,
      fresh_client\<lparr>closed := True\<rparr>,
      snd (snd (Close (fst (snd (Connect fresh_client world0 env_ok)))
                      (snd (snd (Connect fresh_client world0 env_ok)))))) \<and>
   run [OpConnect env_ok, OpSend ''dst'' payload env_ok None, OpRecv ''buf'' env_ok (Some ''m'', None),
        OpClose]
       (fresh_client\<lparr>closed := True\<rparr>)
       (snd (snd (Close (fst (snd (Connect fresh_client world0 env_ok)))
                        (snd (snd (Connect fresh_client world0 env_ok)))))) =
     ([RetErr (Some ErrClientClosed), RetErr (Some ErrClientClosed),
       RetRecv (None, Some ErrClientClosed), RetErr (Some ErrClientClosed)],
      fresh_client\<lparr>closed := True\<rparr>,
      snd (snd (Close (fst (snd (Connect fresh_client world0 env_ok)))
                      (snd (snd (Connect fresh_client world0 env_ok))))))"
proof -
  let ?c = "fst (snd (Connect fresh_client world0 env_ok))"
  let ?w = "snd (snd (Connect fresh_client world0 env_ok))"
  have h: "Close ?c ?w = (None, fresh_client\<lparr>closed := True\<rparr>, snd (snd (Close ?c ?w)))"
    by (simp add: ex_defs op_defs)
  from Close_terminal [OF h, of env_ok "''dst''" payload None "''buf''" "(None, None)"
      "[OpConnect env_ok, OpSend ''dst'' payload env_ok None,
        OpRecv ''buf'' env_ok (Some ''m'', None), OpClose]"] h
  show ?thesis by (simp del: run.simps)
qed

text \<open>
  C6. A \<open>Send\<close> or \<open>Recv\<close> on an established session whose session call fails leaves a
  client that is not closed and holds no transport, session or response. The next
  \<open>Connect\<close>, \<open>Send\<close> or \<open>Recv\<close>, when the collaborators report no fault, returns no
  error, having dialed and shaken hands anew: the client then holds the newly dialed
  transport and the newly built session, both different from those of the failed
  session.
\<close>

theorem self_healing:
  assumes "\<not> closed c" and "client c = Some dc" and "netConn c = Some n"
    and "n < next_conn w" and "sess_id dc < next_sess w"
    and "(c1, w1) = snd (Send c w dstKey b env (Some e)) \<or>
         (c1, w1) = snd (Recv c w buf env (m, Some e))"
    and "no_faults env'"
  shows "\<not> closed c1 \<and> netConn c1 = None \<and> client c1 = None \<and> resp c1 = None \<and>
     next_conn w1 \<noteq> n \<and> fresh_session w1 \<noteq> dc \<and>
     fst (Connect c1 w1 env') = None \<and>
     netConn (fst (snd (Connect c1 w1 env'))) = Some (next_conn w1) \<and>
     client (fst (snd (Connect c1 w1 env'))) = Some (fresh_session w1) \<and>
     new_events w1 (snd (snd (Connect c1 w1 env'))) =
       handshake_events c1 w1 ''derphttp.Client.Connect'' \<and>
     fst (Send c1 w1 k' b' env' None) = None \<and>
     netConn (fst (snd (Send c1 w1 k' b' env' None))) = Some (next_conn w1) \<and>
     client (fst (snd (Send c1 w1 k' b' env' None))) = Some (fresh_session w1) \<and>
     new_events w1 (snd (snd (Send c1 w1 k' b' env' None))) =
       handshake_events c1 w1 ''derphttp.Client.Send'' @ [DerpSend (fresh_session w1) k' b'] \<and>
     fst (Recv c1 w1 buf' env' (m', None)) = (m', None) \<and>
     netConn (fst (snd (Recv c1 w1 buf' env' (m', None)))) = Some (next_conn w1) \<and>
     client (fst (snd (Recv c1 w1 buf' env' (m', None)))) = Some (fresh_session w1) \<and>
     new_events w1 (snd (snd (Recv c1 w1 buf' env' (m', None)))) =
       handshake_events c1 w1 ''derphttp.Client.Recv'' @ [DerpRecv (fresh_session w1) buf']"
proof -
  from assms(6) have c1: "c1 = c\<lparr>resp := None, client := None, netConn := None\<rparr>"
    and w1: "next_conn w1 = next_conn w" "next_sess w1 = next_sess w"
    by (auto simp: Send_teardown [OF assms(1-3)] Recv_teardown [OF assms(1-3)] emit_def)
  from c1 assms(1) have s: "\<not> closed c1" "client c1 = None" by simp_all
  from c1 have t: "netConn c1 = None" "resp c1 = None" by simp_all
  from w1 assms(4,5) have f: "next_conn w1 \<noteq> n" "fresh_session w1 \<noteq> dc"
    by (auto simp: fresh_session_def)
  from s t f reconnect_Connect [OF s assms(7), of w1]
    reconnect_Send [OF s assms(7), of w1 k' b']
    reconnect_Recv [OF s assms(7), of w1 buf' m']
  show ?thesis by blast
qed

text \<open>
  C6 after a \<open>Send\<close> that failed with \<open>broken pipe\<close> on the first session.
\<close>

theorem self_healing_witness:
  "\<not> closed connected_client \<and> client connected_client = Some (DerpClient 0 0) \<and>
   netConn connected_client = Some 0 \<and> 0 < next_conn world1 \<and>
   sess_id (DerpClient 0 0) < next_sess world1 \<and> no_faults env_ok \<and>
   fst (Send connected_client world1 ''dst'' payload env_status_200
          (Some (ErrorString ''broken pipe''))) = None \<and>
   client (fst (snd (Send connected_client world1 ''dst'' payload env_status_200
                       (Some (ErrorString ''broken pipe''))))) = None \<and>
   fst (Send (fst (snd (Send connected_client world1 ''dst'' payload env_status_200
                          (Some (ErrorString ''broken pipe'')))))
             (snd (snd (Send connected_client world1 ''dst'' payload env_status_200
                          (Some (ErrorString ''broken pipe'')))))
             ''dst'' payload env_ok None) = None \<and>
   client (fst (snd (Send (fst (snd (Send connected_client world1 ''dst'' payload env_status_200
                          (Some (ErrorString ''broken pipe'')))))
             (snd (snd (Send connected_client world1 ''dst'' payload env_status_200
                          (Some (ErrorString ''broken pipe'')))))
             ''dst'' payload env_ok None))) = Some (DerpClient 1 1)"
proof -
  let ?s = "Send connected_client world1 ''dst'' payload env_status_200
              (Some (ErrorString ''broken pipe''))"
  have h: "\<not> closed connected_client" "client connected_client = Some (DerpClient 0 0)"
    "netConn connected_client = Some 0" "0 < next_conn world1"
    "sess_id (DerpClient 0 0) < next_sess world1"
    by (simp_all add: connected_client_eq world1_counters fresh_client_def)
  have d: "(fst (snd ?s), snd (snd ?s)) = snd ?s \<or>
           (fst (snd ?s), snd (snd ?s)) =
             snd (Recv connected_client world1 ''buf'' env_status_200
                   (None, Some (ErrorString ''broken pipe'')))"
    by simp
  have n: "no_faults env_ok" by (simp add: no_faults_def env_ok_def)
  have r: "fst ?s = None"
    by (simp add: Send_teardown [OF h(1-3)])
  have w: "next_conn (snd (snd ?s)) = 1" "next_sess (snd (snd ?s)) = 1"
    by (simp_all add: Send_teardown [OF h(1-3)] emit_def world1_counters)
  from self_healing [OF h d n, of "''dst''" payload "''buf''" None] h n r w
  show ?thesis by (simp add: fresh_session_def)
qed

text \<open>
  C7. When the response is read without error and its status is not 101, \<open>connect\<close>
  returns an error whose message is the caller's name, \<open>connect: GET failed: <nil>: \<close>
  and the body of the response: the nil error prints as \<open><nil>\<close>, and the rejection is
  reported.
\<close>

theorem connect_rejects_non_101:
  assumes "\<not> closed c" and "client c = None"
    and "dial_out env = DialOk" and "newreq_err env = None"
    and "write_err env = None" and "flush_err env = None"
    and "read_out env = Inr rsp" and "StatusCode rsp \<noteq> 101"
  shows "fst (connect c w env caller) =
           Inl (ErrorString (caller @ '' connect: GET failed: <nil>: '' @ Body rsp)) \<and>
         fst (Connect c w env) =
           Some (ErrorString (''derphttp.Client.Connect connect: GET failed: <nil>: '' @ Body rsp))"
  using assms
  by (simp add: Connect_def connect_def handshake_def connect_failed_def Let_def
      StatusSwitchingProtocols_def)

text \<open>
  C7 at status 200 with body \<open>nope\<close>.
\<close>

theorem connect_rejects_non_101_witness:
  "\<not> closed fresh_client \<and> client fresh_client = None \<and>
   read_out env_status_200 = Inr \<lparr>StatusCode = 200, Body = ''nope''\<rparr> \<and>
   fst (Connect fresh_client world0 env_status_200) =
     Some (ErrorString ''derphttp.Client.Connect connect: GET failed: <nil>: nope'')"
proof -
  have h: "\<not> closed fresh_client" "client fresh_client = None"
    "dial_out env_status_200 = DialOk" "newreq_err env_status_200 = None"
    "write_err env_status_200 = None" "flush_err env_status_200 = None"
    "read_out env_status_200 = Inr \<lparr>StatusCode = 200, Body = ''nope''\<rparr>"
    "StatusCode \<lparr>StatusCode = 200, Body = ''nope''\<rparr> \<noteq> 101"
    by (simp_all add: ex_defs)
  from connect_rejects_non_101 [OF h, of world0 "''derphttp.Client.Connect''"] h
  show ?thesis by simp
qed




text \<open>
  C9. Claimed: the dial address is host:port of the endpoint. For
  \<open>https://relay.example:443/derp\<close> the source joins the \<open>Host\<close> field, which already
  holds the port, with the port again, and dials \<open>[relay.example:443]:443\<close>.
\<close>

theorem https_explicit_port_dial_addr:
  "dial_addr example_url = (True, ''[relay.example:443]:443'')
   \<and> new_events world0 (snd (snd (Connect fresh_client world0 env_ok))) ! 1
       = TLSDial ''[relay.example:443]:443''"
  by (simp add: ex_defs op_defs new_events_def)

text \<open>
  C10. \<open>Close\<close> on a client that is not closed and holds neither handle returns nil, makes
  no call (the world is unchanged) and leaves both handles absent; any number of further
  \<open>Close\<close> calls each return \<open>ErrClientClosed\<close>.
\<close>

theorem Close_never_connected:
  assumes "\<not> closed c" and "netConn c = None" and "client c = None"
  shows "Close c w = (None, c\<lparr>closed := True\<rparr>, w) \<and>
     netConn (c\<lparr>closed := True\<rparr>) = None \<and> client (c\<lparr>closed := True\<rparr>) = None \<and>
     run (replicate k OpClose) (c\<lparr>closed := True\<rparr>) w =
       (replicate k (RetErr (Some ErrClientClosed)), c\<lparr>closed := True\<rparr>, w)"
  using assms by (simp add: Close_def close_def run_closed)

text \<open>
  C10 on a fresh client, closed three times.
\<close>

theorem Close_never_connected_witness:
  "\<not> closed fresh_client \<and> netConn fresh_client = None \<and> client fresh_client = None \<and>
   Close fresh_client world0 = (None, fresh_client\<lparr>closed := True\<rparr>, world0) \<and>
   run (replicate 2 OpClose) (fresh_client\<lparr>closed := True\<rparr>) world0 =
     (replicate 2 (RetErr (Some ErrClientClosed)), fresh_client\<lparr>closed := True\<rparr>, world0)"
proof -
  have h: "\<not> closed fresh_client" "netConn fresh_client = None" "client fresh_client = None"
    by (simp_all add: fresh_client_def)
  from Close_never_connected [OF h, of world0 2] h show ?thesis by (simp del: run.simps)
qed

end
